theory Spec2Isabelle
  imports
    Main
    "HOL-Library.Multiset"
    "HOL-Library.Char_ord"
    "HOL-Library.List_Lexorder"
    "HOL-Library.Word"
begin

unbundle bit_operations_syntax

section \<open>Strings\<close>

text \<open>
  A JavaScript string is modelled as a \<^typ>\<open>string\<close>: one \<^typ>\<open>char\<close> per code unit,
  for the code units below 256. The output of \<^verbatim>\<open>git\<close> that \<^verbatim>\<open>lib/git.js\<close> reads is of
  this kind (hashes, ref names, and paths, which \<^verbatim>\<open>git\<close> prints quoted when they hold other
  bytes). A \<^verbatim>\<open>Buffer\<close> is a list of bytes, a \<^typ>\<open>char\<close> each, and
  \<^verbatim>\<open>Buffer.from(s, 'utf8')\<close> of an ASCII string is the string itself.
\<close>

type_synonym buffer = "char list"

definition LF :: char where
  "LF = CHR 0x0A"


text \<open>
  \<^verbatim>\<open>String.prototype.trim\<close> removes white space and line terminators from both ends:
  TAB, LF, VT, FF, CR, SP and NBSP among the code units below 256.
\<close>

definition is_space :: "char \<Rightarrow> bool" where
  "is_space c = (c \<in> set [CHR 0x09, CHR 0x0A, CHR 0x0B, CHR 0x0C, CHR 0x0D, CHR 0x20, CHR 0xA0])"

definition trim :: "string \<Rightarrow> string" where
  "trim s = rev (dropWhile is_space (rev (dropWhile is_space s)))"

text \<open>
  \<^verbatim>\<open>s.split(sep)\<close> for a one-character separator: the pieces between the separators, so
  that the empty string splits into one empty piece.
\<close>

fun split :: "char \<Rightarrow> string \<Rightarrow> string list" where
  "split sep [] = [[]]"
| "split sep (c # cs) =
     (if c = sep then [] # split sep cs
      else (case split sep cs of [] \<Rightarrow> [[c]] | w # ws \<Rightarrow> (c # w) # ws))"



text \<open>\<^verbatim>\<open>s.indexOf(c)\<close> for a one-character pattern; \<open>-1\<close> when \<open>c\<close> does not occur.\<close>

fun indexOf :: "string \<Rightarrow> char \<Rightarrow> int" where
  "indexOf [] c = -1"
| "indexOf (x # xs) c =
     (if x = c then 0 else (let i = indexOf xs c in if i < 0 then -1 else i + 1))"

section \<open>Errors and subprocesses\<close>

text \<open>
  The values a promise of \<^verbatim>\<open>lib/git.js\<close> is rejected with: a plain \<^verbatim>\<open>Error\<close> with its
  message, the \<^verbatim>\<open>TypeError\<close> of reading a property of \<^verbatim>\<open>null\<close>, the error of
  \<^verbatim>\<open>child_process.exec\<close> and \<^verbatim>\<open>execFile\<close> for a command that exited with a non-zero status
  (it carries the status and both captured streams), and a system error with its code
  (\<^verbatim>\<open>ENOENT\<close>, \<^verbatim>\<open>EISDIR\<close>, ...).
\<close>

datatype js_error =
    Error string
  | TypeError string
  | ExecError int string string
  | SystemError string

text \<open>
  How a command run by \<^verbatim>\<open>exec\<close> or \<^verbatim>\<open>execFile\<close> ended: it exited with a status, having
  written its standard output and standard error, or it could not be started.
\<close>

datatype exec_outcome =
    Exited int string string
  | NotStarted string

text \<open>
  The result the callback (or the promisified call) sees: the standard output and standard
  error on status 0, the error otherwise.
\<close>

fun exec_result :: "exec_outcome \<Rightarrow> js_error + (string \<times> string)" where
  "exec_result (Exited code out err) =
     (if code = 0 then Inr (out, err) else Inl (ExecError code out err))"
| "exec_result (NotStarted e) = Inl (SystemError e)"

section \<open>listTree\<close>

text \<open>
  \<^verbatim>\<open>listTree(dst)\<close> runs \<^verbatim>\<open>git ls-tree --full-tree -r --name-only HEAD\<close> in \<open>dst\<close>, and
  resolves with the sorted lines of the trimmed output. \<^verbatim>\<open>execFile\<close> is the platform's: the
  model takes it as a function from the program, its arguments and the working directory
  to the way the command ended. \<^verbatim>\<open>Array.prototype.sort\<close> without a comparator orders strings
  by code units, a linear order, which \<^const>\<open>sort\<close> on \<^typ>\<open>string\<close> is.
\<close>

definition listTree :: "(string \<Rightarrow> string list \<Rightarrow> string \<Rightarrow> exec_outcome) \<Rightarrow> string
    \<Rightarrow> js_error + string list" where
  "listTree execFile dst =
     (case exec_result
        (execFile ''git'' [''ls-tree'', ''--full-tree'', ''-r'', ''--name-only'', ''HEAD''] dst) of
        Inl e \<Rightarrow> Inl e
      | Inr (out, err) \<Rightarrow> Inr (sort (split LF (trim out))))"

section \<open>listTags\<close>




text \<open>
  The record of a tag starts as the empty object; \<^verbatim>\<open>commit\<close>, \<^verbatim>\<open>annotated\<close> and \<^verbatim>\<open>name\<close>
  are absent until they are assigned.
\<close>

record tag_record =
  commit :: "string option"
  annotated :: "string option"
  name :: "string option"






section \<open>sortTags and matchTag\<close>

text \<open>
  \<^verbatim>\<open>lib/vendor/semver\<close> is not among the sources: the three functions of it that
  \<^verbatim>\<open>lib/git.js\<close> calls are parameters of the model. They are taken as total: what the
  library does with a string that is not a version is not part of the model.
\<close>

record semver =
  semver_gt :: "string \<Rightarrow> string \<Rightarrow> bool"
  semver_lt :: "string \<Rightarrow> string \<Rightarrow> bool"
  semver_satisfies :: "string \<Rightarrow> string \<Rightarrow> bool"

text \<open>
  The comparator that \<open>sortTags\<close> hands to \<^verbatim>\<open>Array.prototype.sort\<close>: 0 for the same string,
  1 (\<open>a\<close> after \<open>b\<close>) when \<open>cmp a b\<close>, and -1 (\<open>a\<close> before \<open>b\<close>) otherwise.
\<close>

definition compare_tags :: "(string \<Rightarrow> string \<Rightarrow> bool) \<Rightarrow> string \<Rightarrow> string \<Rightarrow> int" where
  "compare_tags cmp a b = (if a = b then 0 else if cmp a b then 1 else -1)"

text \<open>
  \<^verbatim>\<open>Array.prototype.sort\<close> with a comparator. The language leaves the algorithm to the
  engine; the model is an insertion sort: the elements are taken from left to right, and
  each is placed before the first element already placed that the comparator puts it
  before (a negative result). With a consistent comparator the sort is stable, as the
  language requires.
\<close>

fun insert_by :: "('a \<Rightarrow> 'a \<Rightarrow> int) \<Rightarrow> 'a \<Rightarrow> 'a list \<Rightarrow> 'a list" where
  "insert_by cmp x [] = [x]"
| "insert_by cmp x (y # ys) = (if cmp x y < 0 then x # y # ys else y # insert_by cmp x ys)"

definition sort_by :: "('a \<Rightarrow> 'a \<Rightarrow> int) \<Rightarrow> 'a list \<Rightarrow> 'a list" where
  "sort_by cmp xs = foldl (\<lambda>placed x. insert_by cmp x placed) [] xs"

text \<open>
  \<open>sortTags(tags, desc)\<close>. The flag is \<open>None\<close> when the argument is left out
  (\<^verbatim>\<open>undefined\<close>, which is falsy). The comparison is \<^verbatim>\<open>semver.gt\<close> when the flag is set and
  \<^verbatim>\<open>semver.lt\<close> otherwise.
\<close>

definition truthy :: "bool option \<Rightarrow> bool" where
  "truthy flag = (flag = Some True)"

definition sortTags :: "semver \<Rightarrow> string list \<Rightarrow> bool option \<Rightarrow> string list" where
  "sortTags sv tags desc =
     (let filtered = filter (\<lambda>tag. indexOf tag (CHR ''v'') = 0) tags;
          cmp = (if truthy desc then semver_gt sv else semver_lt sv)
      in sort_by (compare_tags cmp) filtered)"




subsection \<open>An instance of the version library\<close>

text \<open>
  Modelled from the spec: \<^verbatim>\<open>lib/vendor/semver\<close>, the version-comparison library that the
  specification calls an external collaborator, is missing from the sources. The
  specification names what it does (version precedence, and whether a version satisfies a
  range) and leaves the rules to semantic versioning, which this instance follows for
  versions \<^verbatim>\<open>[v]MAJOR.MINOR.PATCH\<close> with an optional \<^verbatim>\<open>-PRERELEASE\<close> and \<^verbatim>\<open>+BUILD\<close> and for the
  caret ranges \<^verbatim>\<open>^X.Y.Z\<close>; a string that is not such a version is below nothing and
  satisfies nothing. The instance serves the examples only: the theorems are about every
  version library.
\<close>

datatype ident = Numeric nat | Alphanumeric string

definition parse_nat :: "string \<Rightarrow> nat option" where
  "parse_nat s =
     (if s \<noteq> [] \<and> list_all (\<lambda>c. c \<in> set ''0123456789'') s
      then Some (foldl (\<lambda>n c. 10 * n + (of_char c - 48)) 0 s) else None)"

definition parse_ident :: "string \<Rightarrow> ident" where
  "parse_ident s = (case parse_nat s of Some n \<Rightarrow> Numeric n | None \<Rightarrow> Alphanumeric s)"

definition cut :: "char \<Rightarrow> string \<Rightarrow> string \<times> string option" where
  "cut c s =
     (takeWhile (\<lambda>x. x \<noteq> c) s,
      case dropWhile (\<lambda>x. x \<noteq> c) s of [] \<Rightarrow> None | x # rest \<Rightarrow> Some rest)"

definition parse_version :: "string \<Rightarrow> (nat \<times> nat \<times> nat \<times> ident list) option" where
  "parse_version s =
     (let s1 = (case s of [] \<Rightarrow> [] | c # r \<Rightarrow> if c = CHR ''v'' then r else s);
          s2 = fst (cut (CHR ''+'') s1);
          core = fst (cut (CHR ''-'') s2);
          pre = (case snd (cut (CHR ''-'') s2) of
                   None \<Rightarrow> [] | Some p \<Rightarrow> map parse_ident (split (CHR ''.'') p))
      in case map parse_nat (split (CHR ''.'') core) of
           [Some major, Some minor, Some patch] \<Rightarrow> Some (major, minor, patch, pre)
         | _ \<Rightarrow> None)"

fun ident_less :: "ident \<Rightarrow> ident \<Rightarrow> bool" where
  "ident_less (Numeric a) (Numeric b) = (a < b)"
| "ident_less (Numeric a) (Alphanumeric b) = True"
| "ident_less (Alphanumeric a) (Numeric b) = False"
| "ident_less (Alphanumeric a) (Alphanumeric b) = (a < b)"

fun prerelease_less :: "ident list \<Rightarrow> ident list \<Rightarrow> bool" where
  "prerelease_less [] [] = False"
| "prerelease_less [] (y # ys) = True"
| "prerelease_less (x # xs) [] = False"
| "prerelease_less (x # xs) (y # ys) = (ident_less x y \<or> (x = y \<and> prerelease_less xs ys))"

fun version_less :: "nat \<times> nat \<times> nat \<times> ident list \<Rightarrow> nat \<times> nat \<times> nat \<times> ident list \<Rightarrow> bool" where
  "version_less (a, b, c, p) (a', b', c', p') =
     (a < a' \<or> (a = a' \<and> (b < b' \<or> (b = b' \<and> (c < c' \<or> (c = c' \<and>
        p \<noteq> [] \<and> (p' = [] \<or> prerelease_less p p')))))))"

definition version_lt :: "string \<Rightarrow> string \<Rightarrow> bool" where
  "version_lt a b =
     (case (parse_version a, parse_version b) of
        (Some x, Some y) \<Rightarrow> version_less x y | _ \<Rightarrow> False)"

definition caret_satisfies :: "string \<Rightarrow> string \<Rightarrow> bool" where
  "caret_satisfies version needed =
     (case needed of
        [] \<Rightarrow> False
      | c # r \<Rightarrow>
          (case (parse_version version, parse_version r) of
             (Some (a, b, c', p), Some (x, y, z, q)) \<Rightarrow>
               c = CHR ''^'' \<and> p = [] \<and> q = [] \<and> \<not> version_less (a, b, c', p) (x, y, z, q)
               \<and> (if 0 < x then a = x else if 0 < y then a = 0 \<and> b = y
                   else a = 0 \<and> b = 0 \<and> c' = z)
           | _ \<Rightarrow> False))"

definition version_library :: semver where
  "version_library =
     \<lparr>semver_gt = (\<lambda>a b. version_lt b a), semver_lt = version_lt,
      semver_satisfies = caret_satisfies\<rparr>"

section \<open>verifyRepo\<close>

text \<open>
  \<^verbatim>\<open>spawn\<close> starts \<^verbatim>\<open>git\<close> and hands back a child that emits events: \<^verbatim>\<open>error\<close> with an error
  (the child could not be started), and \<^verbatim>\<open>close\<close> with the exit status, or with \<^verbatim>\<open>null\<close> when
  a signal ended the child. The model takes \<^verbatim>\<open>spawn\<close> as a function from the program, its
  arguments, the working directory and the \<^verbatim>\<open>stdio\<close> option to the events in the order they
  are emitted.
\<close>

datatype child_event =
    ErrorEvent js_error
  | CloseEvent "int option"

datatype 'a promise =
    Pending
  | Resolved 'a
  | Rejected js_error

text \<open>
  The two handlers of \<open>verifyRepo\<close>. A promise is settled once: \<^verbatim>\<open>resolve\<close> and \<^verbatim>\<open>reject\<close>
  on a settled promise do nothing.
\<close>

fun verifyRepo_handler :: "unit promise \<Rightarrow> child_event \<Rightarrow> unit promise" where
  "verifyRepo_handler Pending (ErrorEvent err) = Rejected err"
| "verifyRepo_handler Pending (CloseEvent code) =
     (if code = Some 0 then Resolved () else Rejected (Error ''Could not verify signature.''))"
| "verifyRepo_handler settled event = settled"

text \<open>
  \<^verbatim>\<open>!tag\<close> holds for \<^verbatim>\<open>null\<close> (\<open>None\<close>) and for the empty string: then the commit is verified.
\<close>

definition verifyRepo_args :: "string option \<Rightarrow> string \<Rightarrow> string list" where
  "verifyRepo_args tag commit_id =
     (case tag of
        None \<Rightarrow> [''verify-commit'', commit_id]
      | Some t \<Rightarrow> if t = [] then [''verify-commit'', commit_id] else [''verify-tag'', t])"

definition verifyRepo ::
  "(string \<Rightarrow> string list \<Rightarrow> string \<Rightarrow> string \<Rightarrow> child_event list)
    \<Rightarrow> string option \<Rightarrow> string \<Rightarrow> string \<Rightarrow> string \<Rightarrow> unit promise" where
  "verifyRepo spawn tag commit_id dst stdio =
     foldl verifyRepo_handler Pending (spawn ''git'' (verifyRepo_args tag commit_id) dst stdio)"

section \<open>checksum and treeHash\<close>

text \<open>
  The platform of the digest engine: \<^verbatim>\<open>execFile\<close>, the content that
  \<^verbatim>\<open>fs.createReadStream\<close> streams for a path (or the error of its \<^verbatim>\<open>error\<close> event), the
  function that \<^verbatim>\<open>crypto.createHash\<close> computes for an algorithm name (none for a name it does
  not support: \<^verbatim>\<open>createHash\<close> throws), and \<^verbatim>\<open>path.join\<close>.
\<close>

record platform =
  execFile :: "string \<Rightarrow> string list \<Rightarrow> string \<Rightarrow> exec_outcome"
  createReadStream :: "string \<Rightarrow> js_error + buffer"
  createHash :: "string \<Rightarrow> (buffer \<Rightarrow> buffer) option"
  path_join :: "string \<Rightarrow> string \<Rightarrow> string"








section \<open>cloneRepo\<close>


section \<open>The MD5 algorithm\<close>



















section \<open>An example platform\<close>




section \<open>Properties of listTree\<close>

text \<open>
  C10. When the enumeration of the tracked files exits with status 0 and an empty standard
  output (a checkout with no tracked file), \<open>listTree\<close> resolves with the list whose only
  element is the empty string, not with the empty list.
\<close>

theorem listTree_empty_output:
  assumes "run ''git'' [''ls-tree'', ''--full-tree'', ''-r'', ''--name-only'', ''HEAD''] dst
             = Exited 0 [] err"
  shows "listTree run dst = Inr [[]]"
  using assms by (simp add: listTree_def trim_def)

theorem listTree_empty_output_witness:
  "listTree (\<lambda>file args cwd. if file = ''git'' then Exited 0 [] [] else NotStarted ''ENOENT'')
     ''/tmp/checkout'' = Inr [[]]
   \<and> listTree (\<lambda>file args cwd. if file = ''git'' then Exited 0 [] [] else NotStarted ''ENOENT'')
     ''/tmp/checkout'' \<noteq> Inr []"
  using listTree_empty_output
    [of "\<lambda>file args cwd. if file = ''git'' then Exited 0 [] [] else NotStarted ''ENOENT''"
        "''/tmp/checkout''" "[]"]
  by simp

section \<open>Properties of listTags\<close>
















section \<open>Properties of sortTags and matchTag\<close>

lemma indexOf_zero: "indexOf t c = 0 \<longleftrightarrow> take 1 t = [c]"
  by (cases t) (auto simp: Let_def)















lemma sortTags_unfold:
  "sortTags sv tags desc =
     sort_by (compare_tags (if desc = Some True then semver_gt sv else semver_lt sv))
       (filter (\<lambda>t. take 1 t = ''v'') tags)"
  by (simp add: sortTags_def truthy_def indexOf_zero)


subsection \<open>Evaluations with the instance of the version library\<close>









lemma build_metadata_ties:
  "\<not> semver_lt version_library ''v1.0.0+linux'' ''v1.0.0+macos''
   \<and> \<not> semver_lt version_library ''v1.0.0+macos'' ''v1.0.0+linux''"
  by code_simp

subsection \<open>The claims\<close>





text \<open>
  C7. When the flag is not set, the descending branch, the comparator of \<open>sortTags\<close> is
  \<open>compare_tags\<close> on \<^verbatim>\<open>semver.lt\<close>. It answers -1, "before", for any two distinct names of
  which the first is not strictly below the second, so that equal precedence counts as
  above; it answers 0 for the same string. Two distinct names of equal precedence are thus
  each put before the other, and the order among them is not that of the input: with the
  sort of the model the two change places.
\<close>

theorem compare_tags_ties:
  "(\<not> truthy desc \<longrightarrow>
      sortTags sv tags desc =
        sort_by (compare_tags (semver_lt sv)) (filter (\<lambda>t. take 1 t = ''v'') tags))
   \<and> (a \<noteq> b \<and> \<not> semver_lt sv a b \<longrightarrow> compare_tags (semver_lt sv) a b = - 1)
   \<and> compare_tags (semver_lt sv) a a = 0
   \<and> (a \<noteq> b \<and> \<not> semver_lt sv a b \<and> \<not> semver_lt sv b a \<and> take 1 a = ''v'' \<and> take 1 b = ''v'' \<longrightarrow>
        compare_tags (semver_lt sv) a b = - 1 \<and> compare_tags (semver_lt sv) b a = - 1
        \<and> sortTags sv [a, b] None = [b, a])"
  by (auto simp: sortTags_unfold truthy_def compare_tags_def sort_by_def)

theorem compare_tags_ties_witness:
  "\<not> truthy None
   \<and> ''v1.0.0+linux'' \<noteq> ''v1.0.0+macos''
   \<and> \<not> semver_lt version_library ''v1.0.0+linux'' ''v1.0.0+macos''
   \<and> \<not> semver_lt version_library ''v1.0.0+macos'' ''v1.0.0+linux''
   \<and> compare_tags (semver_lt version_library) ''v1.0.0+linux'' ''v1.0.0+macos'' = - 1
   \<and> compare_tags (semver_lt version_library) ''v1.0.0+macos'' ''v1.0.0+linux'' = - 1
   \<and> sortTags version_library [''v1.0.0+linux'', ''v1.0.0+macos''] None
       = [''v1.0.0+macos'', ''v1.0.0+linux'']"
proof -
  have "\<not> truthy None"
    by (simp add: truthy_def)
  moreover have "''v1.0.0+linux'' \<noteq> ''v1.0.0+macos''"
    by simp
  moreover have "take 1 ''v1.0.0+linux'' = ''v'' \<and> take 1 ''v1.0.0+macos'' = ''v''"
    by simp
  ultimately show ?thesis
    using compare_tags_ties
      [of None version_library "[''v1.0.0+linux'', ''v1.0.0+macos'']"
          "''v1.0.0+linux''" "''v1.0.0+macos''"]
      build_metadata_ties
    by blast
qed

section \<open>Properties of verifyRepo\<close>

lemma verifyRepo_handler_once: "p \<noteq> Pending \<Longrightarrow> verifyRepo_handler p event = p"
  by (cases p) simp_all

lemma verifyRepo_handler_settled: "p \<noteq> Pending \<Longrightarrow> foldl verifyRepo_handler p events = p"
  by (induction events) (simp_all add: verifyRepo_handler_once)

lemma verifyRepo_first_event:
  "foldl verifyRepo_handler Pending (event # events) = verifyRepo_handler Pending event"
  by (cases event) (simp_all add: verifyRepo_handler_settled)

text \<open>
  C2, as amended. \<open>verifyRepo\<close> succeeds exactly when the first event of the child is
  \<^verbatim>\<open>close\<close> with status 0. A \<^verbatim>\<open>close\<close> with any other status, or with none, rejects with the
  \<^verbatim>\<open>Error\<close> of message \<^verbatim>\<open>Could not verify signature.\<close>, whatever the cause. An \<^verbatim>\<open>error\<close>
  event, which a child that could not be started emits, rejects with the underlying error
  itself.
\<close>

theorem verifyRepo_outcome:
  "(verifyRepo spawn tag commit_id dst stdio = Resolved () \<longleftrightarrow>
      (\<exists>rest. spawn ''git'' (verifyRepo_args tag commit_id) dst stdio = CloseEvent (Some 0) # rest))
   \<and> (spawn ''git'' (verifyRepo_args tag commit_id) dst stdio = CloseEvent code # rest \<and> code \<noteq> Some 0
        \<longrightarrow> verifyRepo spawn tag commit_id dst stdio = Rejected (Error ''Could not verify signature.''))
   \<and> (spawn ''git'' (verifyRepo_args tag commit_id) dst stdio = ErrorEvent err # rest
        \<longrightarrow> verifyRepo spawn tag commit_id dst stdio = Rejected err)"
proof -
  let ?events = "spawn ''git'' (verifyRepo_args tag commit_id) dst stdio"
  have "verifyRepo spawn tag commit_id dst stdio = Resolved () \<longleftrightarrow>
      (\<exists>rest. ?events = CloseEvent (Some 0) # rest)"
  proof (cases ?events)
    case Nil
    then show ?thesis by (simp add: verifyRepo_def)
  next
    case (Cons event events)
    then show ?thesis
      by (cases event) (auto simp: verifyRepo_def verifyRepo_handler_settled)
  qed
  then show ?thesis
    by (auto simp: verifyRepo_def verifyRepo_handler_settled)
qed

theorem verifyRepo_outcome_witness:
  "verifyRepo (\<lambda>file args cwd stdio. [CloseEvent (Some 0)])
      (Some ''v1.0.0'') ''1a2b3c'' ''/srv/checkout'' ''inherit'' = Resolved ()
   \<and> verifyRepo (\<lambda>file args cwd stdio. [CloseEvent (Some 1)])
      (Some ''v1.0.0'') ''1a2b3c'' ''/srv/checkout'' ''inherit''
     = Rejected (Error ''Could not verify signature.'')
   \<and> verifyRepo (\<lambda>file args cwd stdio. [CloseEvent None])
      None ''1a2b3c'' ''/srv/checkout'' ''inherit''
     = Rejected (Error ''Could not verify signature.'')
   \<and> verifyRepo (\<lambda>file args cwd stdio. [ErrorEvent (SystemError ''ENOENT''), CloseEvent (Some (- 2))])
      (Some ''v1.0.0'') ''1a2b3c'' ''/srv/checkout'' ''inherit''
     = Rejected (SystemError ''ENOENT'')"
  using verifyRepo_outcome
      [of "\<lambda>file args cwd stdio. [CloseEvent (Some 0)]"
          "Some ''v1.0.0''" "''1a2b3c''" "''/srv/checkout''" "''inherit''"]
    verifyRepo_outcome
      [of "\<lambda>file args cwd stdio. [CloseEvent (Some 1)]"
          "Some ''v1.0.0''" "''1a2b3c''" "''/srv/checkout''" "''inherit''" "Some 1" "[]"]
    verifyRepo_outcome
      [of "\<lambda>file args cwd stdio. [CloseEvent None]"
          None "''1a2b3c''" "''/srv/checkout''" "''inherit''" None "[]"]
    verifyRepo_outcome
      [of "\<lambda>file args cwd stdio. [ErrorEvent (SystemError ''ENOENT''), CloseEvent (Some (- 2))]"
          "Some ''v1.0.0''" "''1a2b3c''" "''/srv/checkout''" "''inherit''" _ "[CloseEvent (Some (- 2))]"
          "SystemError ''ENOENT''"]
  by simp

text \<open>
  The claim as stated fails for a child that cannot be started: the rejection is the
  system error of \<^verbatim>\<open>spawn\<close>, and not an \<^verbatim>\<open>Error\<close> with the message of the verification.
\<close>

theorem verifyRepo_spawn_error_counterexample:
  "verifyRepo (\<lambda>file args cwd stdio. [ErrorEvent (SystemError ''ENOENT''), CloseEvent (Some (- 2))])
      (Some ''v1.0.0'') ''1a2b3c'' ''/tmp/checkout'' ''inherit''
     = Rejected (SystemError ''ENOENT'')
   \<and> (\<forall>msg. verifyRepo (\<lambda>file args cwd stdio. [ErrorEvent (SystemError ''ENOENT''), CloseEvent (Some (- 2))])
      (Some ''v1.0.0'') ''1a2b3c'' ''/tmp/checkout'' ''inherit''
     \<noteq> Rejected (Error msg))"
  by (simp add: verifyRepo_def)

section \<open>Properties of cloneRepo\<close>



section \<open>Evaluations of MD5\<close>



















section \<open>Properties of treeHash\<close>























end
